theory Spec2Isabelle
  imports Main "HOL-Library.Sublist"
begin

section \<open>Text, stored values and exceptions\<close>

text \<open>
  Python's \<open>str\<close> is a sequence of Unicode code points: slicing and length count code
  points, and the status texts of \<open>/test\<close> hold code points beyond ASCII. A text is
  therefore a list of code points; \<open>u\<close> embeds an ASCII literal.
\<close>

type_synonym pystr = "nat list"

definition u :: "string \<Rightarrow> pystr" where
  "u s = map of_char s"

text \<open>
  The instants the store hands back: the driver decodes a stored date to a naive
  \<open>datetime\<close>. \<open>isoformat\<close> is the standard library's rendering,
  \<open>YYYY-MM-DDTHH:MM:SS\<close> followed by \<open>.ffffff\<close> when the microsecond is not zero.
\<close>

record datetime =
  year :: nat
  month :: nat
  day :: nat
  hour :: nat
  minute :: nat
  second :: nat
  microsecond :: nat

fun digits :: "nat \<Rightarrow> pystr" where
  "digits n = (if n < 10 then [48 + n] else digits (n div 10) @ [48 + n mod 10])"

declare digits.simps [simp del]

definition zpad :: "nat \<Rightarrow> nat \<Rightarrow> pystr" where
  "zpad w n = replicate (w - length (digits n)) 48 @ digits n"

definition isoformat_sep :: "nat \<Rightarrow> datetime \<Rightarrow> pystr" where
  "isoformat_sep sep d =
     zpad 4 (year d) @ [45] @ zpad 2 (month d) @ [45] @ zpad 2 (day d) @ [sep] @
     zpad 2 (hour d) @ [58] @ zpad 2 (minute d) @ [58] @ zpad 2 (second d) @
     (if microsecond d \<noteq> 0 then [46] @ zpad 6 (microsecond d) else [])"

definition isoformat :: "datetime \<Rightarrow> pystr" where
  "isoformat d = isoformat_sep 84 d"

text \<open>
  The values a raw document can hold, as \<open>to_out\<close> sees them: null, text, an instant,
  a store identifier (with its hexadecimal text), and any other object, which is
  represented by the three things the handler can observe of it: its truth value,
  the name of its type and its \<open>str()\<close> text.
\<close>

datatype pyval =
    PNone
  | PStr pystr
  | PDatetime datetime
  | PObjectId pystr
  | POther bool pystr pystr

fun truthy :: "pyval \<Rightarrow> bool" where
  "truthy PNone = False"
| "truthy (PStr s) = (s \<noteq> [])"
| "truthy (PDatetime d) = True"
| "truthy (PObjectId h) = True"
| "truthy (POther b t s) = b"

fun py_str :: "pyval \<Rightarrow> pystr" where
  "py_str PNone = u ''None''"
| "py_str (PStr s) = s"
| "py_str (PDatetime d) = isoformat_sep 32 d"
| "py_str (PObjectId h) = h"
| "py_str (POther b t s) = s"

fun type_name :: "pyval \<Rightarrow> pystr" where
  "type_name PNone = u ''NoneType''"
| "type_name (PStr s) = u ''str''"
| "type_name (PDatetime d) = u ''datetime.datetime''"
| "type_name (PObjectId h) = u ''ObjectId''"
| "type_name (POther b t s) = t"

text \<open>
  An exception is its class, as far as the handlers tell classes apart, and its
  \<open>str()\<close> text. \<open>Exception\<close> stands for every other subclass of
  Python's \<open>Exception\<close>.
\<close>

datatype exn =
    ImportError pystr
  | AttributeError pystr
  | ValidationError pystr
  | Exception pystr

fun str_exn :: "exn \<Rightarrow> pystr" where
  "str_exn (ImportError m) = m"
| "str_exn (AttributeError m) = m"
| "str_exn (ValidationError m) = m"
| "str_exn (Exception m) = m"

text \<open>
  What a handler sends back: a returned value is served with status 200, a raised
  \<open>HTTPException\<close> with its status code and its detail.
\<close>

datatype 'a response =
    Response nat 'a
  | HTTPException nat pystr

section \<open>Greeting endpoints\<close>

text \<open>A dict literal is the list of its items.\<close>

definition read_root :: "(pystr \<times> pystr) list response" where
  "read_root = Response 200 [(u ''message'', u ''Hello from FastAPI Backend!'')]"

definition hello :: "(pystr \<times> pystr) list response" where
  "hello = Response 200 [(u ''message'', u ''Hello from the backend API!'')]"

section \<open>Raw documents and the output mapping\<close>

type_synonym doc = "pystr \<rightharpoonup> pyval"

definition dict_get :: "doc \<Rightarrow> pystr \<Rightarrow> pyval \<Rightarrow> pyval" where
  "dict_get d k dflt = (case d k of None \<Rightarrow> dflt | Some v \<Rightarrow> v)"

record CredentialOut =
  out_id :: pystr
  out_title :: pystr
  out_username :: pystr
  out_password :: pystr
  out_url :: "pystr option"
  out_note :: "pystr option"
  out_created_at :: "pystr option"
  out_updated_at :: "pystr option"

text \<open>
  Modelled from the spec: the schema \<open>CredentialOut\<close> of \<open>schemas.py\<close>, which is
  not among the sources. The spec gives \<open>id\<close>, \<open>title\<close>, \<open>username\<close>,
  \<open>password\<close> as text and \<open>url\<close>, \<open>note\<close>, \<open>created_at\<close>, \<open>updated_at\<close>
  as optional text. Constructing the object validates the arguments: a text field
  takes a text, an optional one a text or null. The text of the validation error is
  the schema library's; it is the parameter \<open>vtext\<close>, applied to the arguments.
\<close>

definition text_arg :: "pyval \<Rightarrow> pystr option" where
  "text_arg v = (case v of PStr s \<Rightarrow> Some s | _ \<Rightarrow> None)"

definition opt_text_arg :: "pyval \<Rightarrow> pystr option option" where
  "opt_text_arg v = (case v of PStr s \<Rightarrow> Some (Some s) | PNone \<Rightarrow> Some None | _ \<Rightarrow> None)"

definition opt_val :: "pystr option \<Rightarrow> pyval" where
  "opt_val t = (case t of None \<Rightarrow> PNone | Some s \<Rightarrow> PStr s)"

definition new_CredentialOut ::
  "(pyval list \<Rightarrow> pystr) \<Rightarrow> pystr \<Rightarrow> pyval \<Rightarrow> pyval \<Rightarrow> pyval \<Rightarrow> pyval \<Rightarrow> pyval \<Rightarrow>
   pystr option \<Rightarrow> pystr option \<Rightarrow> exn + CredentialOut" where
  "new_CredentialOut vtext i t un pw ur nt ca ua =
     (case (text_arg t, text_arg un, text_arg pw, opt_text_arg ur, opt_text_arg nt) of
        (Some t', Some un', Some pw', Some ur', Some nt') \<Rightarrow>
          Inr \<lparr>out_id = i, out_title = t', out_username = un', out_password = pw',
               out_url = ur', out_note = nt', out_created_at = ca, out_updated_at = ua\<rparr>
      | _ \<Rightarrow> Inl (ValidationError
                 (vtext [PStr i, t, un, pw, ur, nt, opt_val ca, opt_val ua])))"

text \<open>
  \<open>doc.get(k).isoformat() if doc.get(k) else None\<close>: a falsy value gives null; a truthy
  one is asked for its \<open>isoformat\<close> attribute, which only an instant has.
\<close>

definition call_isoformat :: "pyval \<Rightarrow> exn + pystr" where
  "call_isoformat v =
     (case v of
        PDatetime d \<Rightarrow> Inr (isoformat d)
      | _ \<Rightarrow> Inl (AttributeError
                 ([39] @ type_name v @ [39] @ u '' object has no attribute '' @
                  [39] @ u ''isoformat'' @ [39])))"

definition iso_or_none :: "doc \<Rightarrow> pystr \<Rightarrow> exn + pystr option" where
  "iso_or_none d k =
     (if truthy (dict_get d k PNone)
      then (case call_isoformat (dict_get d k PNone) of
              Inl e \<Rightarrow> Inl e
            | Inr s \<Rightarrow> Inr (Some s))
      else Inr None)"

text \<open>
  \<open>to_out\<close>: the keyword arguments are evaluated in the order written, so a failing
  \<open>created_at\<close> raises before \<open>updated_at\<close> is looked at, and both before the
  object is validated.
\<close>

definition to_out :: "(pyval list \<Rightarrow> pystr) \<Rightarrow> doc \<Rightarrow> exn + CredentialOut" where
  "to_out vtext d =
     (case iso_or_none d (u ''created_at'') of
        Inl e \<Rightarrow> Inl e
      | Inr ca \<Rightarrow>
          (case iso_or_none d (u ''updated_at'') of
             Inl e \<Rightarrow> Inl e
           | Inr ua \<Rightarrow>
               new_CredentialOut vtext
                 (py_str (dict_get d (u ''_id'') PNone))
                 (dict_get d (u ''title'') (PStr []))
                 (dict_get d (u ''username'') (PStr []))
                 (dict_get d (u ''password'') (PStr []))
                 (dict_get d (u ''url'') PNone)
                 (dict_get d (u ''note'') PNone)
                 ca ua))"

section \<open>The store and its filters\<close>

text \<open>The stored state: the documents of each collection, in the store's order.\<close>

record store =
  documents :: "pystr \<Rightarrow> doc list"

text \<open>
  The filter expressions \<open>list_credentials\<close> builds: the empty dict, and
  \<open>{"$or": [c1, c2, ...]}\<close> whose clauses are
  \<open>{field: {"$regex": pattern, "$options": "i"}}\<close>.
\<close>

datatype clause = RegexI pystr pystr

datatype filter = MatchAll | Or "clause list"

text \<open>
  The store reads a \<open>$regex\<close> as a regular expression and searches the field for a
  match anywhere in it. The characters below are the ones with a meaning of their own
  in a pattern. The model interprets the patterns made of ordinary characters and the
  dot, which stands for any character but a line feed; option \<open>i\<close> compares
  characters without regard to case, that is, after the store's case folding, the
  parameter \<open>cf\<close>. Every other pattern is left to the parameter \<open>other\<close>: the store
  either rejects it with an error or reads it as some predicate on texts.
\<close>

definition metachars :: "nat list" where
  "metachars = [92, 94, 36, 46, 91, 93, 124, 40, 41, 63, 42, 43, 123, 125]"

definition literal :: "pystr \<Rightarrow> bool" where
  "literal p = list_all (\<lambda>c. c \<notin> set metachars) p"

definition interpreted :: "pystr \<Rightarrow> bool" where
  "interpreted p = list_all (\<lambda>c. c = 46 \<or> c \<notin> set metachars) p"

type_synonym folding = "nat \<Rightarrow> nat"

definition atom_i :: "folding \<Rightarrow> nat \<Rightarrow> nat \<Rightarrow> bool" where
  "atom_i cf p c = (if p = 46 then c \<noteq> 10 else cf p = cf c)"

fun match_here :: "folding \<Rightarrow> pystr \<Rightarrow> pystr \<Rightarrow> bool" where
  "match_here cf [] s = True"
| "match_here cf (p # ps) [] = False"
| "match_here cf (p # ps) (c # cs) = (atom_i cf p c \<and> match_here cf ps cs)"

fun search_i :: "folding \<Rightarrow> pystr \<Rightarrow> pystr \<Rightarrow> bool" where
  "search_i cf p [] = match_here cf p []"
| "search_i cf p (c # cs) = (match_here cf p (c # cs) \<or> search_i cf p cs)"

type_synonym regex_engine = "pystr \<Rightarrow> exn + (pystr \<Rightarrow> bool)"

definition compile_i ::
  "folding \<Rightarrow> regex_engine \<Rightarrow> pystr \<Rightarrow> exn + (pystr \<Rightarrow> bool)" where
  "compile_i cf other p = (if interpreted p then Inr (search_i cf p) else other p)"

text \<open>A pattern is matched against text only: a missing field or another value never matches.\<close>

definition field_matches :: "(pystr \<Rightarrow> bool) \<Rightarrow> pystr \<Rightarrow> doc \<Rightarrow> bool" where
  "field_matches m k d = (case d k of Some (PStr s) \<Rightarrow> m s | _ \<Rightarrow> False)"

fun compile_clauses ::
  "folding \<Rightarrow> regex_engine \<Rightarrow> clause list \<Rightarrow> exn + (doc \<Rightarrow> bool) list" where
  "compile_clauses cf other [] = Inr []"
| "compile_clauses cf other (RegexI k p # cs) =
     (case compile_i cf other p of
        Inl e \<Rightarrow> Inl e
      | Inr m \<Rightarrow>
          (case compile_clauses cf other cs of
             Inl e \<Rightarrow> Inl e
           | Inr ms \<Rightarrow> Inr (field_matches m k # ms)))"

definition compile_filter ::
  "folding \<Rightarrow> regex_engine \<Rightarrow> filter \<Rightarrow> exn + (doc \<Rightarrow> bool)" where
  "compile_filter cf other f =
     (case f of
        MatchAll \<Rightarrow> Inr (\<lambda>d. True)
      | Or cs \<Rightarrow>
          (case compile_clauses cf other cs of
             Inl e \<Rightarrow> Inl e
           | Inr ms \<Rightarrow> Inr (\<lambda>d. list_ex (\<lambda>m. m d) ms)))"

text \<open>
  What lies outside the program and differs from call to call: the error the store
  raises for this call, if it raises one; the store's case folding; the store's
  reading of the patterns the model does not interpret; the text of the schema
  library's validation errors.
\<close>

record runtime =
  store_raises :: "exn option"
  casefold :: folding
  regex_other :: regex_engine
  validation_text :: "pyval list \<Rightarrow> pystr"

text \<open>
  Modelled from the spec: \<open>get_documents\<close> of \<open>database.py\<close>, which is not among
  the sources. Given a filter expression (empty means match all) it returns the full
  sequence of matching raw documents, and it fails by propagating any underlying
  store error to the caller.
\<close>

definition get_documents :: "runtime \<Rightarrow> store \<Rightarrow> pystr \<Rightarrow> filter \<Rightarrow> exn + doc list" where
  "get_documents rt st coll f =
     (case store_raises rt of
        Some e \<Rightarrow> Inl e
      | None \<Rightarrow>
          (case compile_filter (casefold rt) (regex_other rt) f of
             Inl e \<Rightarrow> Inl e
           | Inr P \<Rightarrow> Inr (filter P (documents st coll))))"

section \<open>Listing credentials\<close>

text \<open>\<open>if q:\<close> holds for a text that is present and not empty.\<close>

definition filter_query :: "pystr option \<Rightarrow> filter" where
  "filter_query q =
     (case q of
        None \<Rightarrow> MatchAll
      | Some t \<Rightarrow>
          (if t \<noteq> [] then Or [RegexI (u ''title'') t, RegexI (u ''username'') t]
           else MatchAll))"

text \<open>The list comprehension: the first document whose mapping raises ends it.\<close>

fun map_raising :: "('a \<Rightarrow> exn + 'b) \<Rightarrow> 'a list \<Rightarrow> exn + 'b list" where
  "map_raising f [] = Inr []"
| "map_raising f (x # xs) =
     (case f x of
        Inl e \<Rightarrow> Inl e
      | Inr y \<Rightarrow> (case map_raising f xs of Inl e \<Rightarrow> Inl e | Inr ys \<Rightarrow> Inr (y # ys)))"

definition list_credentials ::
  "runtime \<Rightarrow> store \<Rightarrow> pystr option \<Rightarrow> CredentialOut list response" where
  "list_credentials rt st q =
     (case get_documents rt st (u ''credential'') (filter_query q) of
        Inl e \<Rightarrow> HTTPException 500 (str_exn e)
      | Inr docs \<Rightarrow>
          (case map_raising (to_out (validation_text rt)) docs of
             Inl e \<Rightarrow> HTTPException 500 (str_exn e)
           | Inr outs \<Rightarrow> Response 200 outs))"

section \<open>Creating a credential\<close>

record Credential =
  title :: pystr
  username :: pystr
  password :: pystr
  url :: "pystr option"
  note_field :: "pystr option"

record CreateResponse =
  new_id :: pystr

text \<open>
  What the store does with an insertion is its own choice: it raises, or it assigns
  the new document an identifier.
\<close>

datatype insertion = InsertRaises exn | InsertAssigns pystr

definition serialize :: "Credential \<Rightarrow> pystr \<Rightarrow> doc" where
  "serialize c oid =
     [u ''_id'' \<mapsto> PObjectId oid,
      u ''title'' \<mapsto> PStr (title c),
      u ''username'' \<mapsto> PStr (username c),
      u ''password'' \<mapsto> PStr (password c),
      u ''url'' \<mapsto> opt_val (url c),
      u ''note'' \<mapsto> opt_val (note_field c)]"

text \<open>
  Modelled from the spec: \<open>create_document\<close> of \<open>database.py\<close>, which is not among
  the sources. It serializes the record to the store's document shape and inserts it,
  returning the store-assigned identifier as text, and it fails by propagating any
  underlying store error to the caller.
\<close>

definition create_document ::
  "insertion \<Rightarrow> store \<Rightarrow> pystr \<Rightarrow> Credential \<Rightarrow> (exn + pystr) \<times> store" where
  "create_document ins st coll c =
     (case ins of
        InsertRaises e \<Rightarrow> (Inl e, st)
      | InsertAssigns oid \<Rightarrow>
          (Inr oid,
           st\<lparr>documents := (documents st)(coll := documents st coll @ [serialize c oid])\<rparr>))"

definition create_credential ::
  "insertion \<Rightarrow> store \<Rightarrow> Credential \<Rightarrow> CreateResponse response \<times> store" where
  "create_credential ins st c =
     (case create_document ins st (u ''credential'') c of
        (Inr inserted_id, st') \<Rightarrow> (Response 200 \<lparr>new_id = inserted_id\<rparr>, st')
      | (Inl e, st') \<Rightarrow> (HTTPException 500 (str_exn e), st'))"

section \<open>The diagnostic endpoint\<close>

text \<open>
  The store handle as \<open>test_database\<close> probes it: what looking up its attribute
  \<open>name\<close> does (it raises, there is none, or it gives a text) and what
  \<open>list_collection_names()\<close> does. Importing \<open>db\<close> raises, or gives the handle,
  which is \<open>None\<close> when the store was not initialized.
\<close>

datatype name_probe = NameRaises exn | NoName | Name pystr

datatype db_handle = Database name_probe "exn + pystr list"

datatype import_result = ImportRaises exn | Imported "db_handle option"

record environ =
  DATABASE_URL :: "pystr option"
  DATABASE_NAME :: "pystr option"

record status =
  backend :: pystr
  database :: pystr
  database_url :: "pystr option"
  database_name :: "pystr option"
  connection_status :: pystr
  collections :: "pystr list"

definition check_mark :: pystr where "check_mark = [9989]"
definition cross_mark :: pystr where "cross_mark = [10060]"
definition warning_sign :: pystr where "warning_sign = [9888, 65039]"

definition initial_status :: status where
  "initial_status =
     \<lparr>backend = check_mark @ u '' Running'',
      database = cross_mark @ u '' Not Available'',
      database_url = None,
      database_name = None,
      connection_status = u ''Not Connected'',
      collections = []\<rparr>"

text \<open>The handlers of the outer \<open>try\<close>; \<open>ImportError\<close> is tried first.\<close>

definition outer_text :: "exn \<Rightarrow> pystr" where
  "outer_text e =
     (case e of
        ImportError m \<Rightarrow>
          cross_mark @ u '' Database module not found (run enable-database first)''
      | _ \<Rightarrow> cross_mark @ u '' Error: '' @ take 50 (str_exn e))"

text \<open>
  The body of the outer \<open>try\<close>, statement by statement: an exception leaves the
  payload as the statements before it made it, but for the \<open>database\<close> text.
\<close>

definition probe_database :: "import_result \<Rightarrow> status \<Rightarrow> status" where
  "probe_database imp r =
     (case imp of
        ImportRaises e \<Rightarrow> r\<lparr>database := outer_text e\<rparr>
      | Imported None \<Rightarrow>
          r\<lparr>database := warning_sign @ u ''  Available but not initialized''\<rparr>
      | Imported (Some (Database name listing)) \<Rightarrow>
          (let r0 = r\<lparr>database := check_mark @ u '' Available'',
                      database_url := Some (check_mark @ u '' Configured'')\<rparr>
           in (case name of
                 NameRaises e \<Rightarrow> r0\<lparr>database := outer_text e\<rparr>
               | _ \<Rightarrow>
                   (let r1 = r0\<lparr>database_name :=
                                  Some (case name of
                                          Name n \<Rightarrow> n
                                        | _ \<Rightarrow> check_mark @ u '' Connected''),
                                connection_status := u ''Connected''\<rparr>
                    in (case listing of
                          Inr names \<Rightarrow>
                            r1\<lparr>collections := take 10 names,
                               database := check_mark @ u '' Connected & Working''\<rparr>
                        | Inl e \<Rightarrow>
                            r1\<lparr>database := warning_sign @ u ''  Connected but Error: '' @
                                  take 50 (str_exn e)\<rparr>)))))"

definition env_set :: "pystr option \<Rightarrow> bool" where
  "env_set v = (case v of None \<Rightarrow> False | Some s \<Rightarrow> s \<noteq> [])"

definition set_or_not :: "pystr option \<Rightarrow> pystr" where
  "set_or_not v = (if env_set v then check_mark @ u '' Set'' else cross_mark @ u '' Not Set'')"

definition test_database :: "import_result \<Rightarrow> environ \<Rightarrow> status response" where
  "test_database imp env =
     Response 200
       ((probe_database imp initial_status)
          \<lparr>database_url := Some (set_or_not (DATABASE_URL env)),
           database_name := Some (set_or_not (DATABASE_NAME env))\<rparr>)"

section \<open>Notions of the specification and sample data\<close>

text \<open>
  The specification's words for the search: a text contains \<open>q\<close> as a
  case-insensitive substring, that is, as a substring once both are case-folded. A
  field of a document contains \<open>q\<close> when it holds such a text.
\<close>

definition contains_ci :: "folding \<Rightarrow> pystr \<Rightarrow> pystr \<Rightarrow> bool" where
  "contains_ci cf q s = sublist (map cf q) (map cf s)"

definition field_contains_ci :: "folding \<Rightarrow> pystr \<Rightarrow> pystr \<Rightarrow> doc \<Rightarrow> bool" where
  "field_contains_ci cf q k d =
     (case d k of Some (PStr s) \<Rightarrow> contains_ci cf q s | _ \<Rightarrow> False)"

definition title_or_username_contains :: "folding \<Rightarrow> pystr \<Rightarrow> doc \<Rightarrow> bool" where
  "title_or_username_contains cf q d =
     (field_contains_ci cf q (u ''title'') d \<or> field_contains_ci cf q (u ''username'') d)"

text \<open>
  The specification's words for the output mapping: a text field is the stored text,
  empty when unset; an optional field is the stored text, null when unset or null; a
  timestamp is the rendering of the stored instant, null when unset or falsy.
\<close>

definition text_default :: "doc \<Rightarrow> pystr \<Rightarrow> pystr \<Rightarrow> bool" where
  "text_default d k f =
     (case d k of None \<Rightarrow> f = [] | Some (PStr s) \<Rightarrow> f = s | Some _ \<Rightarrow> True)"

definition null_default :: "doc \<Rightarrow> pystr \<Rightarrow> pystr option \<Rightarrow> bool" where
  "null_default d k f =
     (case d k of
        None \<Rightarrow> f = None
      | Some PNone \<Rightarrow> f = None
      | Some (PStr s) \<Rightarrow> f = Some s
      | Some _ \<Rightarrow> True)"

definition stamp_of :: "pyval \<Rightarrow> pystr option" where
  "stamp_of v = (case v of PDatetime t \<Rightarrow> Some (isoformat t) | _ \<Rightarrow> None)"

definition defaults_applied :: "doc \<Rightarrow> CredentialOut \<Rightarrow> bool" where
  "defaults_applied d out =
     (text_default d (u ''title'') (out_title out) \<and>
      text_default d (u ''username'') (out_username out) \<and>
      text_default d (u ''password'') (out_password out) \<and>
      null_default d (u ''url'') (out_url out) \<and>
      null_default d (u ''note'') (out_note out) \<and>
      out_created_at out = stamp_of (dict_get d (u ''created_at'') PNone) \<and>
      out_updated_at out = stamp_of (dict_get d (u ''updated_at'') PNone))"

text \<open>
  The persisted layout of the specification: \<open>title\<close>, \<open>username\<close> and
  \<open>password\<close> hold text where present, \<open>url\<close> and \<open>note\<close> text or null, the
  timestamps an instant or a falsy value.
\<close>

definition holds_text :: "doc \<Rightarrow> pystr \<Rightarrow> bool" where
  "holds_text d k = (case d k of None \<Rightarrow> True | Some (PStr s) \<Rightarrow> True | Some _ \<Rightarrow> False)"

definition holds_opt_text :: "doc \<Rightarrow> pystr \<Rightarrow> bool" where
  "holds_opt_text d k =
     (case d k of None \<Rightarrow> True | Some PNone \<Rightarrow> True | Some (PStr s) \<Rightarrow> True | Some _ \<Rightarrow> False)"

definition is_instant :: "pyval \<Rightarrow> bool" where
  "is_instant v = (case v of PDatetime t \<Rightarrow> True | _ \<Rightarrow> False)"

definition bad_stamp :: "doc \<Rightarrow> pystr \<Rightarrow> bool" where
  "bad_stamp d k = (truthy (dict_get d k PNone) \<and> \<not> is_instant (dict_get d k PNone))"

definition persisted_layout :: "doc \<Rightarrow> bool" where
  "persisted_layout d =
     (holds_text d (u ''title'') \<and> holds_text d (u ''username'') \<and>
      holds_text d (u ''password'') \<and> holds_opt_text d (u ''url'') \<and>
      holds_opt_text d (u ''note'') \<and> \<not> bad_stamp d (u ''created_at'') \<and>
      \<not> bad_stamp d (u ''updated_at''))"

text \<open>
  Sample data: the case folding of the ASCII letters, a runtime in which the store
  answers, documents and stores.
\<close>

definition lower :: folding where
  "lower c = (if 65 \<le> c \<and> c \<le> 90 then c + 32 else c)"

definition rt_ok :: runtime where
  "rt_ok = \<lparr>store_raises = None,
            casefold = lower,
            regex_other = (\<lambda>p. Inl (Exception p)),
            validation_text = (\<lambda>vs. [])\<rparr>"

definition rt_down :: runtime where
  "rt_down = rt_ok\<lparr>store_raises := Some (Exception (u ''connection refused''))\<rparr>"

definition doc_abc :: doc where
  "doc_abc = [u ''title'' \<mapsto> PStr (u ''abc''),
              u ''username'' \<mapsto> PStr (u ''bob''),
              u ''password'' \<mapsto> PStr (u ''pw'')]"

definition out_abc :: CredentialOut where
  "out_abc = \<lparr>out_id = u ''None'', out_title = u ''abc'', out_username = u ''bob'',
              out_password = u ''pw'', out_url = None, out_note = None,
              out_created_at = None, out_updated_at = None\<rparr>"

definition noon :: datetime where
  "noon = \<lparr>year = 2024, month = 1, day = 2, hour = 12, minute = 0, second = 5,
           microsecond = 0\<rparr>"

definition doc_dated :: doc where
  "doc_dated = [u ''_id'' \<mapsto> PObjectId (u ''65a1''),
                u ''title'' \<mapsto> PStr (u ''GitHub''),
                u ''created_at'' \<mapsto> PDatetime noon]"

definition out_dated :: CredentialOut where
  "out_dated = \<lparr>out_id = u ''65a1'', out_title = u ''GitHub'', out_username = [],
                out_password = [], out_url = None, out_note = None,
                out_created_at = Some (u ''2024-01-02T12:00:05''), out_updated_at = None\<rparr>"

definition doc_yesterday :: doc where
  "doc_yesterday = [u ''title'' \<mapsto> PStr (u ''abc''),
                    u ''created_at'' \<mapsto> PStr (u ''yesterday'')]"

definition doc_null_title :: doc where
  "doc_null_title = [u ''title'' \<mapsto> PNone,
                     u ''username'' \<mapsto> PStr (u ''bob''),
                     u ''password'' \<mapsto> PStr (u ''pw'')]"

definition doc_soon :: doc where
  "doc_soon = [u ''title'' \<mapsto> PStr (u ''abc''),
               u ''username'' \<mapsto> PStr (u ''bob''),
               u ''password'' \<mapsto> PStr (u ''pw''),
               u ''updated_at'' \<mapsto> PStr (u ''soon'')]"

definition store_of :: "doc list \<Rightarrow> store" where
  "store_of ds = \<lparr>documents = (\<lambda>c. if c = u ''credential'' then ds else [])\<rparr>"

definition cred_github :: Credential where
  "cred_github = \<lparr>title = u ''GitHub'', username = u ''alice'', password = u ''p@ss'',
                  url = Some (u ''https://github.com''), note_field = None\<rparr>"

definition env_none :: environ where
  "env_none = \<lparr>DATABASE_URL = None, DATABASE_NAME = None\<rparr>"

definition twelve_names :: "pystr list" where
  "twelve_names = map (\<lambda>n. [97 + n]) [0..<12]"

section \<open>Auxiliary facts\<close>

lemma literal_Cons: "literal (p # ps) = (p \<notin> set metachars \<and> literal ps)"
  by (simp add: literal_def)

lemma literal_interpreted: "literal p \<Longrightarrow> interpreted p"
  by (induction p) (auto simp: literal_def interpreted_def)

lemma literal_not_dot: "p \<notin> set metachars \<Longrightarrow> p \<noteq> 46"
  by (auto simp: metachars_def)

lemma match_here_prefix:
  "literal p \<Longrightarrow> match_here cf p s = prefix (map cf p) (map cf s)"
proof (induction cf p s rule: match_here.induct)
  case (1 cf s)
  then show ?case by simp
next
  case (2 cf p ps)
  then show ?case by simp
next
  case (3 cf p ps c cs)
  then show ?case
    by (simp add: literal_Cons atom_i_def literal_not_dot)
qed

lemma search_i_sublist:
  "literal p \<Longrightarrow> search_i cf p s = contains_ci cf p s"
proof (induction s)
  case Nil
  then show ?case by (simp add: match_here_prefix contains_ci_def)
next
  case (Cons c cs)
  then show ?case
    by (simp add: match_here_prefix sublist_Cons_right contains_ci_def)
qed

lemma field_matches_literal:
  "literal q \<Longrightarrow> field_matches (search_i cf q) k d = field_contains_ci cf q k d"
  by (simp add: field_matches_def field_contains_ci_def search_i_sublist
      split: option.splits pyval.splits)

lemma get_documents_literal:
  assumes "q \<noteq> []" and "literal q" and "store_raises rt = None"
  shows "get_documents rt st c (filter_query (Some q)) =
           Inr (filter (title_or_username_contains (casefold rt) q) (documents st c))"
proof -
  have "(\<lambda>d. field_matches (search_i (casefold rt) q) (u ''title'') d \<or>
              field_matches (search_i (casefold rt) q) (u ''username'') d) =
        title_or_username_contains (casefold rt) q"
    using assms(2) by (simp add: field_matches_literal title_or_username_contains_def fun_eq_iff)
  with assms show ?thesis
    by (simp add: get_documents_def filter_query_def compile_filter_def compile_i_def
        literal_interpreted)
qed

lemma map_raising_Inr:
  "map_raising f xs = Inr ys \<Longrightarrow> list_all2 (\<lambda>x y. f x = Inr y) xs ys"
  by (induction xs arbitrary: ys) (auto split: sum.splits)

lemma map_raising_Inl:
  "x \<in> set xs \<Longrightarrow> f x = Inl e \<Longrightarrow> \<exists>e'. map_raising f xs = Inl e'"
  by (induction xs) (auto split: sum.splits)

lemma iso_or_none_Inr:
  "iso_or_none d k = Inr f \<Longrightarrow> f = stamp_of (dict_get d k PNone)"
  by (cases "dict_get d k PNone")
     (auto simp: iso_or_none_def call_isoformat_def stamp_of_def split: if_splits)

lemma iso_or_none_bad:
  "bad_stamp d k \<Longrightarrow> \<exists>m. iso_or_none d k = Inl (AttributeError m)"
  by (cases "dict_get d k PNone")
     (auto simp: iso_or_none_def call_isoformat_def bad_stamp_def is_instant_def)

lemma iso_or_none_good:
  "\<not> bad_stamp d k \<Longrightarrow> iso_or_none d k = Inr (stamp_of (dict_get d k PNone))"
  by (cases "dict_get d k PNone")
     (auto simp: iso_or_none_def call_isoformat_def bad_stamp_def is_instant_def stamp_of_def)

lemma new_CredentialOut_Inr:
  assumes "new_CredentialOut vt i t un pw ur nt ca ua = Inr out"
  shows "out_id out = i \<and> text_arg t = Some (out_title out) \<and>
         text_arg un = Some (out_username out) \<and> text_arg pw = Some (out_password out) \<and>
         opt_text_arg ur = Some (out_url out) \<and> opt_text_arg nt = Some (out_note out) \<and>
         out_created_at out = ca \<and> out_updated_at out = ua"
  using assms by (auto simp: new_CredentialOut_def split: option.splits)

lemma to_out_Inr:
  assumes "to_out vt d = Inr out"
  shows "iso_or_none d (u ''created_at'') = Inr (out_created_at out)"
    and "iso_or_none d (u ''updated_at'') = Inr (out_updated_at out)"
    and "out_id out = py_str (dict_get d (u ''_id'') PNone)"
    and "text_arg (dict_get d (u ''title'') (PStr [])) = Some (out_title out)"
    and "text_arg (dict_get d (u ''username'') (PStr [])) = Some (out_username out)"
    and "text_arg (dict_get d (u ''password'') (PStr [])) = Some (out_password out)"
    and "opt_text_arg (dict_get d (u ''url'') PNone) = Some (out_url out)"
    and "opt_text_arg (dict_get d (u ''note'') PNone) = Some (out_note out)"
  using assms
  by (auto simp: to_out_def split: sum.splits dest!: new_CredentialOut_Inr)

lemma text_arg_default:
  "text_arg (dict_get d k (PStr [])) = Some f \<Longrightarrow> text_default d k f"
  by (auto simp: text_arg_def dict_get_def text_default_def split: option.splits pyval.splits)

lemma opt_text_arg_default:
  "opt_text_arg (dict_get d k PNone) = Some f \<Longrightarrow> null_default d k f"
  by (auto simp: opt_text_arg_def dict_get_def null_default_def
      split: option.splits pyval.splits)

lemma to_out_defaults: "to_out vt d = Inr out \<Longrightarrow> defaults_applied d out"
  unfolding defaults_applied_def
  by (intro conjI text_arg_default opt_text_arg_default iso_or_none_Inr to_out_Inr)

lemma holds_text_arg:
  "holds_text d k \<Longrightarrow> \<exists>s. text_arg (dict_get d k (PStr [])) = Some s"
  by (auto simp: holds_text_def text_arg_def dict_get_def split: option.splits pyval.splits)

lemma holds_opt_text_arg:
  "holds_opt_text d k \<Longrightarrow> \<exists>s. opt_text_arg (dict_get d k PNone) = Some s"
  by (auto simp: holds_opt_text_def opt_text_arg_def dict_get_def
      split: option.splits pyval.splits)

lemma to_out_total:
  assumes "persisted_layout d"
  shows "\<exists>out. to_out vt d = Inr out"
proof -
  from assms obtain t un pw ur nt where
    "text_arg (dict_get d (u ''title'') (PStr [])) = Some t"
    "text_arg (dict_get d (u ''username'') (PStr [])) = Some un"
    "text_arg (dict_get d (u ''password'') (PStr [])) = Some pw"
    "opt_text_arg (dict_get d (u ''url'') PNone) = Some ur"
    "opt_text_arg (dict_get d (u ''note'') PNone) = Some nt"
    unfolding persisted_layout_def
    by (meson holds_text_arg holds_opt_text_arg)
  moreover from assms have
    "iso_or_none d (u ''created_at'') = Inr (stamp_of (dict_get d (u ''created_at'') PNone))"
    "iso_or_none d (u ''updated_at'') = Inr (stamp_of (dict_get d (u ''updated_at'') PNone))"
    by (simp_all add: persisted_layout_def iso_or_none_good)
  ultimately show ?thesis
    by (simp add: to_out_def new_CredentialOut_def)
qed

lemma u_keys_distinct:
  "u ''_id'' \<noteq> u ''created_at''" "u ''_id'' \<noteq> u ''updated_at''"
  "u ''_id'' \<noteq> u ''title''" "u ''_id'' \<noteq> u ''username''" "u ''_id'' \<noteq> u ''password''"
  "u ''_id'' \<noteq> u ''url''" "u ''_id'' \<noteq> u ''note''"
  by (simp_all add: u_def)

lemma to_out_id_update:
  "to_out vt (d(u ''_id'' := x)) =
     (case to_out vt d of
        Inl e \<Rightarrow> to_out vt (d(u ''_id'' := x))
      | Inr out \<Rightarrow> Inr (out\<lparr>out_id := py_str (case x of None \<Rightarrow> PNone | Some v \<Rightarrow> v)\<rparr>))"
proof (cases "to_out vt d")
  case (Inl e)
  then show ?thesis by simp
next
  case (Inr out)
  have other: "\<And>k dflt. k \<noteq> u ''_id'' \<Longrightarrow> dict_get (d(u ''_id'' := x)) k dflt = dict_get d k dflt"
    by (simp add: dict_get_def)
  have own: "dict_get (d(u ''_id'' := x)) (u ''_id'') PNone = (case x of None \<Rightarrow> PNone | Some v \<Rightarrow> v)"
    by (simp add: dict_get_def)
  have iso: "\<And>k. k \<noteq> u ''_id'' \<Longrightarrow> iso_or_none (d(u ''_id'' := x)) k = iso_or_none d k"
    by (simp add: iso_or_none_def other)
  from Inr show ?thesis
    using u_keys_distinct
    by (auto simp: to_out_def iso other own new_CredentialOut_def
        split: sum.splits option.splits)
qed

section \<open>The claims\<close>

subsection \<open>Greeting endpoints\<close>

text \<open>
  C8. \<open>GET /\<close> always returns the fixed payload with the message
  "Hello from FastAPI Backend!" and \<open>GET /api/hello\<close> the fixed payload with the
  message "Hello from the backend API!", each with status 200: the handlers take no
  input and have no other outcome.
\<close>

theorem greetings_fixed:
  "read_root = Response 200 [(u ''message'', u ''Hello from FastAPI Backend!'')] \<and>
   hello = Response 200 [(u ''message'', u ''Hello from the backend API!'')]"
  by (simp add: read_root_def hello_def)

subsection \<open>Searching\<close>

text \<open>
  C1, as the specification states it, fails: the query text is handed to the store as
  a regular expression, so the query "." selects a credential whose title "abc" and
  username "bob" do not contain it.
\<close>

theorem dot_query_counterexample:
  "casefold rt_ok = lower \<and>
   \<not> contains_ci lower (u ''.'') (u ''abc'') \<and>
   \<not> contains_ci lower (u ''.'') (u ''bob'') \<and>
   list_credentials rt_ok (store_of [doc_abc]) (Some (u ''.'')) = Response 200 [out_abc]"
  by (simp add: contains_ci_def sublist_Cons_right lower_def u_def list_credentials_def
      get_documents_def rt_ok_def store_of_def doc_abc_def out_abc_def filter_query_def
      compile_filter_def compile_i_def interpreted_def metachars_def field_matches_def
      atom_i_def to_out_def iso_or_none_def dict_get_def new_CredentialOut_def
      text_arg_def opt_text_arg_def)

text \<open>
  C1, amended. When the store answers and the query \<open>q\<close> is not empty and holds none
  of the characters that have a meaning in a regular expression, the filter selects
  exactly the documents of the collection "credential" whose title or username is a
  text containing \<open>q\<close> as a case-insensitive substring (under the store's case
  folding), in the store's order, and the list endpoint answers with the mapping of
  exactly these documents.
\<close>

theorem literal_query_selects_substring_matches:
  assumes "q \<noteq> []" and "literal q" and "store_raises rt = None"
  shows "get_documents rt st (u ''credential'') (filter_query (Some q)) =
           Inr (filter (title_or_username_contains (casefold rt) q) (documents st (u ''credential''))) \<and>
         list_credentials rt st (Some q) =
           (case map_raising (to_out (validation_text rt))
                   (filter (title_or_username_contains (casefold rt) q) (documents st (u ''credential''))) of
              Inl e \<Rightarrow> HTTPException 500 (str_exn e)
            | Inr outs \<Rightarrow> Response 200 outs)"
  using assms by (simp add: list_credentials_def get_documents_literal)

theorem literal_query_witness:
  "u ''BO'' \<noteq> [] \<and> literal (u ''BO'') \<and> store_raises rt_ok = None \<and>
   list_credentials rt_ok (store_of [doc_abc, doc_dated]) (Some (u ''BO'')) =
     Response 200 [out_abc]"
proof -
  have h1: "u ''BO'' \<noteq> []" by (simp add: u_def)
  have h2: "literal (u ''BO'')" by (simp add: u_def literal_def metachars_def)
  have h3: "store_raises rt_ok = None" by (simp add: rt_ok_def)
  have sel: "filter (title_or_username_contains (casefold rt_ok) (u ''BO''))
               (documents (store_of [doc_abc, doc_dated]) (u ''credential'')) = [doc_abc]"
    by (simp add: title_or_username_contains_def field_contains_ci_def contains_ci_def
        sublist_Cons_right store_of_def doc_abc_def doc_dated_def lower_def rt_ok_def u_def)
  have out: "to_out (validation_text rt_ok) doc_abc = Inr out_abc"
    by (simp add: to_out_def iso_or_none_def dict_get_def new_CredentialOut_def
        text_arg_def opt_text_arg_def doc_abc_def out_abc_def u_def)
  show ?thesis
    using literal_query_selects_substring_matches [OF h1 h2 h3, of "store_of [doc_abc, doc_dated]"]
      h1 h2 h3
    by (simp add: sel out)
qed

subsection \<open>The output mapping\<close>

lemma isoformat_noon: "isoformat noon = u ''2024-01-02T12:00:05''"
  by (simp add: isoformat_def isoformat_sep_def zpad_def digits.simps noon_def u_def)

lemma to_out_doc_abc: "to_out vt doc_abc = Inr out_abc"
  by (simp add: to_out_def iso_or_none_def dict_get_def new_CredentialOut_def
      text_arg_def opt_text_arg_def doc_abc_def out_abc_def u_def)

lemma to_out_doc_dated: "to_out vt doc_dated = Inr out_dated"
  by (simp add: to_out_def iso_or_none_def call_isoformat_def dict_get_def
      new_CredentialOut_def text_arg_def opt_text_arg_def doc_dated_def out_dated_def
      isoformat_noon u_def)

lemma list_all_docs:
  "list_credentials rt_ok (store_of ds) None =
     (case map_raising (to_out (validation_text rt_ok)) ds of
        Inl e \<Rightarrow> HTTPException 500 (str_exn e)
      | Inr outs \<Rightarrow> Response 200 outs)"
  by (simp add: list_credentials_def get_documents_def filter_query_def compile_filter_def
      rt_ok_def store_of_def)

text \<open>
  C2, as the specification states it, fails: not every raw document is mapped to an
  output object. A document whose stored title is null is refused by the schema, and
  a document whose stored \<open>updated_at\<close> is the text "soon" raises an attribute
  error; in both cases there is no output object and the list request ends with
  status 500.
\<close>

theorem unmapped_document_counterexample:
  "doc_null_title (u ''title'') = Some PNone \<and>
   isl (to_out (validation_text rt_ok) doc_null_title) \<and>
   list_credentials rt_ok (store_of [doc_null_title]) None = HTTPException 500 [] \<and>
   doc_soon (u ''updated_at'') = Some (PStr (u ''soon'')) \<and>
   isl (to_out (validation_text rt_ok) doc_soon) \<and>
   list_credentials rt_ok (store_of [doc_soon]) None =
     HTTPException 500
       ([39] @ u ''str'' @ [39] @ u '' object has no attribute '' @
        [39] @ u ''isoformat'' @ [39])"
proof -
  have vt: "validation_text rt_ok = (\<lambda>vs. [])"
    by (simp add: rt_ok_def)
  have a: "to_out (\<lambda>vs. []) doc_null_title = Inl (ValidationError [])"
    by (simp add: to_out_def iso_or_none_def dict_get_def new_CredentialOut_def
        text_arg_def opt_text_arg_def doc_null_title_def u_def)
  have b: "to_out (\<lambda>vs. []) doc_soon =
      Inl (AttributeError ([39] @ u ''str'' @ [39] @ u '' object has no attribute '' @
                           [39] @ u ''isoformat'' @ [39]))"
    by (simp add: to_out_def iso_or_none_def call_isoformat_def dict_get_def
        doc_soon_def u_def)
  have c: "doc_null_title (u ''title'') = Some PNone"
    by (simp add: doc_null_title_def u_def)
  have d: "doc_soon (u ''updated_at'') = Some (PStr (u ''soon''))"
    by (simp add: doc_soon_def u_def)
  from a b c d show ?thesis
    by (simp add: list_all_docs vt)
qed

text \<open>
  C2, amended. Whenever the list endpoint answers, each object of the answer is the
  mapping of one raw document the store returned, in order, and holds every field:
  title, username and password as the stored text, the empty text when the field is
  unset; url and note as the stored text, null when unset or null; created_at and
  updated_at as text or null, null when unset. Every document of the persisted layout
  (title, username and password unset or text; url and note unset, null or text; the
  timestamps unset, falsy or an instant) is mapped to such an object.
\<close>

theorem list_outputs_have_all_fields:
  "(list_credentials rt st q = Response 200 outs \<longrightarrow>
      (\<exists>docs. get_documents rt st (u ''credential'') (filter_query q) = Inr docs \<and>
              list_all2 defaults_applied docs outs)) \<and>
   (persisted_layout d \<longrightarrow> (\<exists>out. to_out vt d = Inr out \<and> defaults_applied d out))"
proof (intro conjI impI)
  assume ok: "list_credentials rt st q = Response 200 outs"
  then obtain docs where
    docs: "get_documents rt st (u ''credential'') (filter_query q) = Inr docs"
    and outs: "map_raising (to_out (validation_text rt)) docs = Inr outs"
    by (auto simp: list_credentials_def split: sum.splits)
  from outs have "list_all2 (\<lambda>d out. to_out (validation_text rt) d = Inr out) docs outs"
    by (rule map_raising_Inr)
  then have "list_all2 defaults_applied docs outs"
    by (rule list_all2_mono) (rule to_out_defaults)
  with docs
  show "\<exists>docs. get_documents rt st (u ''credential'') (filter_query q) = Inr docs \<and>
               list_all2 defaults_applied docs outs"
    by blast
next
  assume "persisted_layout d"
  then obtain out where "to_out vt d = Inr out"
    using to_out_total by blast
  then show "\<exists>out. to_out vt d = Inr out \<and> defaults_applied d out"
    using to_out_defaults by blast
qed

theorem list_outputs_witness:
  "list_credentials rt_ok (store_of [doc_dated]) None = Response 200 [out_dated] \<and>
   get_documents rt_ok (store_of [doc_dated]) (u ''credential'') (filter_query None) =
     Inr [doc_dated] \<and>
   persisted_layout doc_dated \<and>
   to_out (validation_text rt_ok) doc_dated = Inr out_dated \<and>
   defaults_applied doc_dated out_dated \<and>
   out_username out_dated = [] \<and> out_password out_dated = [] \<and>
   out_url out_dated = None \<and> out_note out_dated = None \<and>
   out_updated_at out_dated = None"
proof -
  have resp: "list_credentials rt_ok (store_of [doc_dated]) None = Response 200 [out_dated]"
    by (simp add: list_all_docs to_out_doc_dated)
  have docs: "get_documents rt_ok (store_of [doc_dated]) (u ''credential'') (filter_query None) =
      Inr [doc_dated]"
    by (simp add: get_documents_def filter_query_def compile_filter_def rt_ok_def store_of_def)
  have layout: "persisted_layout doc_dated"
    by (simp add: persisted_layout_def holds_text_def holds_opt_text_def bad_stamp_def
        is_instant_def dict_get_def doc_dated_def u_def)
  from list_outputs_have_all_fields
         [of rt_ok "store_of [doc_dated]" None "[out_dated]" doc_dated "validation_text rt_ok"]
       resp docs layout
  have "defaults_applied doc_dated out_dated"
    by (simp add: to_out_doc_dated)
  with resp docs layout show ?thesis
    by (simp add: to_out_doc_dated) (simp add: out_dated_def)
qed

text \<open>
  C3, as the specification states it, fails: a stored \<open>created_at\<close> that is present
  but is no instant, here the text "yesterday", does not yield null: asking it for
  \<open>isoformat\<close> raises, and the list request ends with status 500.
\<close>

theorem text_timestamp_counterexample:
  "doc_yesterday (u ''created_at'') = Some (PStr (u ''yesterday'')) \<and>
   list_credentials rt_ok (store_of [doc_yesterday]) None =
     HTTPException 500
       ([39] @ u ''str'' @ [39] @ u '' object has no attribute '' @
        [39] @ u ''isoformat'' @ [39])"
  by (simp add: list_all_docs to_out_def iso_or_none_def call_isoformat_def dict_get_def
      doc_yesterday_def u_def)

text \<open>
  C3, amended. For every raw document the list endpoint maps, \<open>created_at\<close> and
  \<open>updated_at\<close> of the output are the ISO-8601 rendering of the stored value when it
  is an instant, and null when it is absent or falsy (null, the empty text). A stored
  value that is truthy and no instant makes the mapping raise an attribute error, and
  every list request that selects such a document ends with status 500.
\<close>

theorem timestamps_rendered_or_null:
  "(to_out vt d = Inr out \<longrightarrow>
      out_created_at out = stamp_of (dict_get d (u ''created_at'') PNone) \<and>
      out_updated_at out = stamp_of (dict_get d (u ''updated_at'') PNone) \<and>
      \<not> bad_stamp d (u ''created_at'') \<and> \<not> bad_stamp d (u ''updated_at'')) \<and>
   (bad_stamp d (u ''created_at'') \<or> bad_stamp d (u ''updated_at'') \<longrightarrow>
      (\<exists>m. to_out vt d = Inl (AttributeError m))) \<and>
   (get_documents rt st (u ''credential'') (filter_query q) = Inr docs \<and> d \<in> set docs \<and>
    (bad_stamp d (u ''created_at'') \<or> bad_stamp d (u ''updated_at'')) \<longrightarrow>
      (\<exists>m. list_credentials rt st q = HTTPException 500 m))"
proof -
  have bad: "\<exists>m. to_out vt' d = Inl (AttributeError m)"
    if "bad_stamp d (u ''created_at'') \<or> bad_stamp d (u ''updated_at'')" for vt'
  proof (cases "bad_stamp d (u ''created_at'')")
    case True
    then show ?thesis
      using iso_or_none_bad [of d "u ''created_at''"] by (auto simp: to_out_def)
  next
    case False
    with that have "bad_stamp d (u ''updated_at'')" by simp
    with False show ?thesis
      using iso_or_none_bad [of d "u ''updated_at''"] iso_or_none_good [of d "u ''created_at''"]
      by (auto simp: to_out_def)
  qed
  have good: "out_created_at out = stamp_of (dict_get d (u ''created_at'') PNone) \<and>
      out_updated_at out = stamp_of (dict_get d (u ''updated_at'') PNone) \<and>
      \<not> bad_stamp d (u ''created_at'') \<and> \<not> bad_stamp d (u ''updated_at'')"
    if "to_out vt d = Inr out"
    using that bad [of vt] to_out_Inr(1,2) [OF that] iso_or_none_Inr by auto
  have listed: "\<exists>m. list_credentials rt st q = HTTPException 500 m"
    if "get_documents rt st (u ''credential'') (filter_query q) = Inr docs" and "d \<in> set docs"
      and "bad_stamp d (u ''created_at'') \<or> bad_stamp d (u ''updated_at'')"
  proof -
    from bad [OF that(3)] obtain m where
      m: "to_out (validation_text rt) d = Inl (AttributeError m)"
      by blast
    from map_raising_Inl [where f = "to_out (validation_text rt)", OF that(2) m]
    obtain e where "map_raising (to_out (validation_text rt)) docs = Inl e" ..
    with that(1) show ?thesis by (simp add: list_credentials_def)
  qed
  from bad good listed show ?thesis by blast
qed

theorem timestamps_witness:
  "to_out (validation_text rt_ok) doc_dated = Inr out_dated \<and>
   dict_get doc_dated (u ''created_at'') PNone = PDatetime noon \<and>
   out_created_at out_dated = Some (isoformat noon) \<and>
   isoformat noon = u ''2024-01-02T12:00:05'' \<and>
   out_updated_at out_dated = None \<and>
   bad_stamp doc_yesterday (u ''created_at'') \<and>
   get_documents rt_ok (store_of [doc_yesterday]) (u ''credential'') (filter_query None) =
     Inr [doc_yesterday] \<and>
   doc_yesterday \<in> set [doc_yesterday] \<and>
   (\<exists>m. list_credentials rt_ok (store_of [doc_yesterday]) None = HTTPException 500 m)"
proof -
  have a: "to_out (validation_text rt_ok) doc_dated = Inr out_dated"
    by (rule to_out_doc_dated)
  have b: "dict_get doc_dated (u ''created_at'') PNone = PDatetime noon"
    by (simp add: dict_get_def doc_dated_def u_def)
  have c: "bad_stamp doc_yesterday (u ''created_at'')"
    by (simp add: bad_stamp_def is_instant_def dict_get_def doc_yesterday_def u_def)
  have e: "get_documents rt_ok (store_of [doc_yesterday]) (u ''credential'') (filter_query None) =
      Inr [doc_yesterday]"
    by (simp add: get_documents_def filter_query_def compile_filter_def rt_ok_def store_of_def)
  have f: "dict_get doc_dated (u ''updated_at'') PNone = PNone"
    by (simp add: dict_get_def doc_dated_def u_def)
  from timestamps_rendered_or_null
         [of "validation_text rt_ok" doc_dated out_dated rt_ok "store_of [doc_yesterday]" None
            "[doc_yesterday]"]
       a b f
  have g: "out_created_at out_dated = Some (isoformat noon) \<and> out_updated_at out_dated = None"
    by (simp add: stamp_of_def)
  from timestamps_rendered_or_null
         [of "validation_text rt_ok" doc_yesterday out_dated rt_ok "store_of [doc_yesterday]" None
            "[doc_yesterday]"]
       c e
  have h: "\<exists>m. list_credentials rt_ok (store_of [doc_yesterday]) None = HTTPException 500 m"
    by simp
  from a b c e g h show ?thesis
    by (simp add: isoformat_noon)
qed

text \<open>
  C10. The output mapping is total in the identifier. Whenever a raw document is
  mapped, the \<open>id\<close> of the output is the string rendering of the stored \<open>_id\<close>,
  the rendering of \<open>None\<close> when \<open>_id\<close> is absent. Whether the mapping succeeds
  never depends on \<open>_id\<close>: a document that is mapped is still mapped with its
  \<open>_id\<close> removed, to the same object with the literal text "None" as \<open>id\<close>.
\<close>

theorem id_is_rendered_total:
  "(to_out vt d = Inr out \<longrightarrow>
      out_id out = py_str (dict_get d (u ''_id'') PNone) \<and>
      to_out vt (d(u ''_id'' := None)) = Inr (out\<lparr>out_id := u ''None''\<rparr>)) \<and>
   (d (u ''_id'') = None \<longrightarrow> to_out vt d = Inr out \<longrightarrow> out_id out = u ''None'') \<and>
   isl (to_out vt (d(u ''_id'' := x))) = isl (to_out vt d)"
proof -
  have rendered: "out_id out = py_str (dict_get d (u ''_id'') PNone)"
    if "to_out vt d = Inr out"
    using that by (rule to_out_Inr(3))
  have removed: "to_out vt (d(u ''_id'' := None)) = Inr (out\<lparr>out_id := u ''None''\<rparr>)"
    if "to_out vt d = Inr out"
    using that by (simp add: to_out_id_update [of vt d None])
  have absent: "out_id out = u ''None''"
    if "d (u ''_id'') = None" and "to_out vt d = Inr out"
    using that rendered by (simp add: dict_get_def)
  have fwd: "isl (to_out vt (d(u ''_id'' := x)))" if "isl (to_out vt d)"
  proof (rule ccontr)
    assume "\<not> isl (to_out vt (d(u ''_id'' := x)))"
    then obtain o' where o': "to_out vt (d(u ''_id'' := x)) = Inr o'"
      by (cases "to_out vt (d(u ''_id'' := x))") auto
    have "(d(u ''_id'' := x))(u ''_id'' := d (u ''_id'')) = d"
      by (simp add: fun_eq_iff)
    with to_out_id_update [of vt "d(u ''_id'' := x)" "d (u ''_id'')"] o'
    have "\<not> isl (to_out vt d)" by simp
    with that show False by simp
  qed
  have bwd: "isl (to_out vt d)" if "isl (to_out vt (d(u ''_id'' := x)))"
  proof (rule ccontr)
    assume "\<not> isl (to_out vt d)"
    then obtain o' where "to_out vt d = Inr o'"
      by (cases "to_out vt d") auto
    with to_out_id_update [of vt d x] have "\<not> isl (to_out vt (d(u ''_id'' := x)))"
      by simp
    with that show False by simp
  qed
  from rendered removed absent fwd bwd show ?thesis by blast
qed

theorem id_is_rendered_witness:
  "to_out (validation_text rt_ok) doc_dated = Inr out_dated \<and>
   out_id out_dated = u ''65a1'' \<and>
   to_out (validation_text rt_ok) (doc_dated(u ''_id'' := None)) =
     Inr (out_dated\<lparr>out_id := u ''None''\<rparr>) \<and>
   doc_abc (u ''_id'') = None \<and>
   to_out (validation_text rt_ok) doc_abc = Inr out_abc \<and>
   out_id out_abc = u ''None''"
proof -
  have a: "to_out (validation_text rt_ok) doc_dated = Inr out_dated"
    by (rule to_out_doc_dated)
  have b: "doc_abc (u ''_id'') = None"
    by (simp add: doc_abc_def u_def)
  have c: "to_out (validation_text rt_ok) doc_abc = Inr out_abc"
    by (rule to_out_doc_abc)
  have d: "dict_get doc_dated (u ''_id'') PNone = PObjectId (u ''65a1'')"
    by (simp add: dict_get_def doc_dated_def u_def)
  from id_is_rendered_total [of "validation_text rt_ok" doc_dated out_dated None] a d
  have e: "out_id out_dated = u ''65a1'' \<and>
      to_out (validation_text rt_ok) (doc_dated(u ''_id'' := None)) =
        Inr (out_dated\<lparr>out_id := u ''None''\<rparr>)"
    by simp
  from a b c e show ?thesis by (simp add: out_abc_def)
qed

subsection \<open>Listing without a query\<close>

text \<open>
  C9. Calling the list endpoint with the empty text as \<open>q\<close> is the same as calling it
  without \<open>q\<close>: in both cases the constructed filter is the empty one, which matches
  every document, so that, when the store answers, the documents handed to the output
  mapping are all the documents of the collection "credential", and an answer holds
  the mapping of each of them, in order.
\<close>

theorem empty_query_like_absent:
  "filter_query (Some []) = MatchAll \<and> filter_query None = MatchAll \<and>
   list_credentials rt st (Some []) = list_credentials rt st None \<and>
   (store_raises rt = None \<longrightarrow>
      get_documents rt st (u ''credential'') MatchAll = Inr (documents st (u ''credential'')) \<and>
      list_credentials rt st None =
        (case map_raising (to_out (validation_text rt)) (documents st (u ''credential'')) of
           Inl e \<Rightarrow> HTTPException 500 (str_exn e)
         | Inr outs \<Rightarrow> Response 200 outs) \<and>
      (list_credentials rt st None = Response 200 outs \<longrightarrow>
         list_all2 (\<lambda>d out. to_out (validation_text rt) d = Inr out)
           (documents st (u ''credential'')) outs))"
proof -
  have f1: "filter_query (Some []) = MatchAll" and f2: "filter_query None = MatchAll"
    by (simp_all add: filter_query_def)
  have same: "list_credentials rt st (Some []) = list_credentials rt st None"
    by (simp add: list_credentials_def f1 f2)
  have all: "get_documents rt st (u ''credential'') MatchAll =
      Inr (documents st (u ''credential''))"
    if "store_raises rt = None"
    using that by (simp add: get_documents_def compile_filter_def)
  have resp: "list_credentials rt st None =
      (case map_raising (to_out (validation_text rt)) (documents st (u ''credential'')) of
         Inl e \<Rightarrow> HTTPException 500 (str_exn e)
       | Inr outs \<Rightarrow> Response 200 outs)"
    if "store_raises rt = None"
    using all [OF that] by (simp add: list_credentials_def f2)
  have each: "list_all2 (\<lambda>d out. to_out (validation_text rt) d = Inr out)
      (documents st (u ''credential'')) outs"
    if "store_raises rt = None" and "list_credentials rt st None = Response 200 outs"
  proof -
    from that resp
    have "map_raising (to_out (validation_text rt)) (documents st (u ''credential'')) = Inr outs"
      by (simp split: sum.splits)
    then show ?thesis by (rule map_raising_Inr)
  qed
  from f1 f2 same all resp each show ?thesis by blast
qed

theorem empty_query_witness:
  "store_raises rt_ok = None \<and>
   list_credentials rt_ok (store_of [doc_abc, doc_dated]) (Some []) =
     Response 200 [out_abc, out_dated] \<and>
   list_credentials rt_ok (store_of [doc_abc, doc_dated]) None =
     Response 200 [out_abc, out_dated]"
proof -
  have h: "store_raises rt_ok = None" by (simp add: rt_ok_def)
  have docs: "documents (store_of [doc_abc, doc_dated]) (u ''credential'') =
      [doc_abc, doc_dated]"
    by (simp add: store_of_def)
  from empty_query_like_absent [of rt_ok "store_of [doc_abc, doc_dated]" "[]"] h
  show ?thesis
    by (simp add: docs to_out_doc_abc to_out_doc_dated)
qed

subsection \<open>Creating, and failures of the store\<close>

lemma serialize_id: "serialize c oid (u ''_id'') = Some (PObjectId oid)"
  by (simp add: serialize_def u_def)

text \<open>
  C5. For every valid credential payload, a successful \<open>POST /api/credentials\<close>
  answers with status 200 and an object holding only the identifier the store
  assigned, as text; it comes from one call of \<open>create_document\<close>, after which the
  collection "credential" is the old one followed by exactly one new document, the
  serialized payload under that identifier, and every other collection is unchanged.
\<close>

theorem create_inserts_one_document:
  "create_credential ins st c =
     (case create_document ins st (u ''credential'') c of
        (Inr inserted_id, st') \<Rightarrow> (Response 200 \<lparr>new_id = inserted_id\<rparr>, st')
      | (Inl e, st') \<Rightarrow> (HTTPException 500 (str_exn e), st')) \<and>
   (fst (create_credential ins st c) = Response 200 r \<longrightarrow>
      ins = InsertAssigns (new_id r) \<and>
      r = \<lparr>new_id = new_id r\<rparr> \<and>
      documents (snd (create_credential ins st c)) (u ''credential'') =
        documents st (u ''credential'') @ [serialize c (new_id r)] \<and>
      length (documents (snd (create_credential ins st c)) (u ''credential'')) =
        Suc (length (documents st (u ''credential''))) \<and>
      serialize c (new_id r) (u ''_id'') = Some (PObjectId (new_id r)) \<and>
      (\<forall>k. k \<noteq> u ''credential'' \<longrightarrow>
           documents (snd (create_credential ins st c)) k = documents st k))"
proof (intro conjI impI)
  show "create_credential ins st c =
     (case create_document ins st (u ''credential'') c of
        (Inr inserted_id, st') \<Rightarrow> (Response 200 \<lparr>new_id = inserted_id\<rparr>, st')
      | (Inl e, st') \<Rightarrow> (HTTPException 500 (str_exn e), st'))"
    by (simp add: create_credential_def)
next
  assume ok: "fst (create_credential ins st c) = Response 200 r"
  then obtain oid where ins: "ins = InsertAssigns oid"
    by (cases ins) (simp_all add: create_credential_def create_document_def)
  with ok have r: "r = \<lparr>new_id = oid\<rparr>"
    by (simp add: create_credential_def create_document_def)
  then have oid: "oid = new_id r" by simp
  show "ins = InsertAssigns (new_id r)"
    using ins oid by simp
  show "r = \<lparr>new_id = new_id r\<rparr>"
    by simp
  show "documents (snd (create_credential ins st c)) (u ''credential'') =
      documents st (u ''credential'') @ [serialize c (new_id r)]"
    using ins oid by (simp add: create_credential_def create_document_def)
  then show "length (documents (snd (create_credential ins st c)) (u ''credential'')) =
      Suc (length (documents st (u ''credential'')))"
    by simp
  show "serialize c (new_id r) (u ''_id'') = Some (PObjectId (new_id r))"
    by (rule serialize_id)
  show "\<forall>k. k \<noteq> u ''credential'' \<longrightarrow>
      documents (snd (create_credential ins st c)) k = documents st k"
    using ins by (simp add: create_credential_def create_document_def)
qed

theorem create_witness:
  "fst (create_credential (InsertAssigns (u ''65a1'')) (store_of [doc_abc]) cred_github) =
     Response 200 \<lparr>new_id = u ''65a1''\<rparr> \<and>
   documents (snd (create_credential (InsertAssigns (u ''65a1'')) (store_of [doc_abc])
                     cred_github)) (u ''credential'') =
     [doc_abc, serialize cred_github (u ''65a1'')] \<and>
   u ''other'' \<noteq> u ''credential'' \<and>
   documents (snd (create_credential (InsertAssigns (u ''65a1'')) (store_of [doc_abc])
                     cred_github)) (u ''other'') = []"
proof -
  have ok: "fst (create_credential (InsertAssigns (u ''65a1'')) (store_of [doc_abc]) cred_github) =
      Response 200 \<lparr>new_id = u ''65a1''\<rparr>"
    by (simp add: create_credential_def create_document_def)
  have ne: "u ''other'' \<noteq> u ''credential''"
    by (simp add: u_def)
  have old: "documents (store_of [doc_abc]) (u ''credential'') = [doc_abc]"
      "documents (store_of [doc_abc]) (u ''other'') = []"
    using ne by (simp_all add: store_of_def)
  from create_inserts_one_document
         [of "InsertAssigns (u ''65a1'')" "store_of [doc_abc]" cred_github
            "\<lparr>new_id = u ''65a1''\<rparr>", THEN conjunct2]
       ok ne
  show ?thesis
    by (simp add: old)
qed

text \<open>
  C6. Every exception the store raises during a list or a create operation ends the
  request with status 500 and the stringified exception as detail. A create call
  that fails at the store leaves the stored state unchanged, so that every later list
  request answers as it would have answered before the call: the record is not
  retrievable.
\<close>

theorem store_error_is_500:
  "(get_documents rt st (u ''credential'') (filter_query q) = Inl e \<longrightarrow>
      list_credentials rt st q = HTTPException 500 (str_exn e)) \<and>
   (store_raises rt = Some e \<longrightarrow>
      list_credentials rt st q = HTTPException 500 (str_exn e)) \<and>
   create_credential (InsertRaises e) st c = (HTTPException 500 (str_exn e), st) \<and>
   list_credentials rt (snd (create_credential (InsertRaises e) st c)) q =
     list_credentials rt st q"
  by (simp add: list_credentials_def get_documents_def create_credential_def
      create_document_def)

theorem store_error_witness:
  "store_raises rt_down = Some (Exception (u ''connection refused'')) \<and>
   get_documents rt_down (store_of [doc_abc]) (u ''credential'') (filter_query None) =
     Inl (Exception (u ''connection refused'')) \<and>
   list_credentials rt_down (store_of [doc_abc]) None =
     HTTPException 500 (u ''connection refused'') \<and>
   create_credential (InsertRaises (Exception (u ''connection refused'')))
       (store_of [doc_abc]) cred_github =
     (HTTPException 500 (u ''connection refused''), store_of [doc_abc]) \<and>
   list_credentials rt_ok
       (snd (create_credential (InsertRaises (Exception (u ''connection refused'')))
               (store_of [doc_abc]) cred_github)) None =
     Response 200 [out_abc]"
proof -
  have h: "store_raises rt_down = Some (Exception (u ''connection refused''))"
    by (simp add: rt_down_def)
  then have g: "get_documents rt_down (store_of [doc_abc]) (u ''credential'')
      (filter_query None) = Inl (Exception (u ''connection refused''))"
    by (simp add: get_documents_def)
  have l: "list_credentials rt_ok (store_of [doc_abc]) None = Response 200 [out_abc]"
    by (simp add: list_all_docs to_out_doc_abc)
  from store_error_is_500
         [of rt_down "store_of [doc_abc]" None "Exception (u ''connection refused'')"
            cred_github]
       store_error_is_500
         [of rt_ok "store_of [doc_abc]" None "Exception (u ''connection refused'')"
            cred_github]
       h g l
  show ?thesis by simp
qed

subsection \<open>The diagnostic endpoint\<close>

lemma test_database_payload:
  "test_database imp env =
     Response 200
       ((probe_database imp initial_status)
          \<lparr>database_url := Some (set_or_not (DATABASE_URL env)),
           database_name := Some (set_or_not (DATABASE_NAME env))\<rparr>)"
  by (simp add: test_database_def)

lemma probe_database_text:
  "database (probe_database imp initial_status) =
     (case imp of
        ImportRaises e \<Rightarrow> outer_text e
      | Imported None \<Rightarrow> warning_sign @ u ''  Available but not initialized''
      | Imported (Some (Database (NameRaises e) l)) \<Rightarrow> outer_text e
      | Imported (Some (Database n (Inl e))) \<Rightarrow>
          warning_sign @ u ''  Connected but Error: '' @ take 50 (str_exn e)
      | Imported (Some (Database n (Inr names))) \<Rightarrow> check_mark @ u '' Connected & Working'')"
  by (simp add: probe_database_def Let_def
      split: import_result.splits option.splits db_handle.splits name_probe.splits
        sum.splits)

lemma probe_database_collections:
  "collections (probe_database imp initial_status) =
     (case imp of
        Imported (Some (Database (NameRaises e) l)) \<Rightarrow> []
      | Imported (Some (Database n (Inr names))) \<Rightarrow> take 10 names
      | _ \<Rightarrow> [])"
  by (simp add: probe_database_def initial_status_def Let_def
      split: import_result.splits option.splits db_handle.splits name_probe.splits
        sum.splits)

lemma probe_database_backend:
  "backend (probe_database imp initial_status) = check_mark @ u '' Running''"
  by (simp add: probe_database_def initial_status_def Let_def
      split: import_result.splits option.splits db_handle.splits name_probe.splits
        sum.splits)

lemma length_outer_text: "length (outer_text e) \<le> 59"
  by (cases e) (simp_all add: outer_text_def u_def cross_mark_def)

text \<open>
  C4. The diagnostic endpoint never fails hard. Whatever the probes of the store do
  (the import raises, the handle is missing, the handle is present, looking at the
  handle or listing its collections raises), the handler returns the status payload
  with HTTP 200. Every error is folded into the \<open>database\<close> text: a fixed text for an
  import error, and otherwise a fixed prefix followed by the first 50 characters of the
  stringified exception, so that the text is never longer than 75 characters.
\<close>

theorem diagnostic_never_fails:
  "\<exists>r. test_database imp env = Response 200 r \<and>
       backend r = check_mark @ u '' Running'' \<and>
       database r =
         (case imp of
            ImportRaises (ImportError m) \<Rightarrow>
              cross_mark @ u '' Database module not found (run enable-database first)''
          | ImportRaises e \<Rightarrow> cross_mark @ u '' Error: '' @ take 50 (str_exn e)
          | Imported None \<Rightarrow> warning_sign @ u ''  Available but not initialized''
          | Imported (Some (Database (NameRaises e) l)) \<Rightarrow> outer_text e
          | Imported (Some (Database n (Inl e))) \<Rightarrow>
              warning_sign @ u ''  Connected but Error: '' @ take 50 (str_exn e)
          | Imported (Some (Database n (Inr names))) \<Rightarrow>
              check_mark @ u '' Connected & Working'') \<and>
       length (database r) \<le> 75 \<and>
       database_url r = Some (set_or_not (DATABASE_URL env)) \<and>
       database_name r = Some (set_or_not (DATABASE_NAME env))"
proof -
  let ?r = "(probe_database imp initial_status)
              \<lparr>database_url := Some (set_or_not (DATABASE_URL env)),
               database_name := Some (set_or_not (DATABASE_NAME env))\<rparr>"
  have folded: "database ?r =
         (case imp of
            ImportRaises (ImportError m) \<Rightarrow>
              cross_mark @ u '' Database module not found (run enable-database first)''
          | ImportRaises e \<Rightarrow> cross_mark @ u '' Error: '' @ take 50 (str_exn e)
          | Imported None \<Rightarrow> warning_sign @ u ''  Available but not initialized''
          | Imported (Some (Database (NameRaises e) l)) \<Rightarrow> outer_text e
          | Imported (Some (Database n (Inl e))) \<Rightarrow>
              warning_sign @ u ''  Connected but Error: '' @ take 50 (str_exn e)
          | Imported (Some (Database n (Inr names))) \<Rightarrow>
              check_mark @ u '' Connected & Working'')"
    by (simp add: probe_database_text outer_text_def
        split: import_result.splits exn.splits)
  have outer: "length (outer_text e) \<le> 75" for e
    using length_outer_text [of e] by simp
  have "length (database ?r) \<le> 75"
    by (auto simp: probe_database_text outer u_def check_mark_def warning_sign_def
        split: import_result.splits option.splits db_handle.splits name_probe.splits
          sum.splits)
  with folded show ?thesis
    by (simp add: test_database_payload probe_database_backend)
qed

theorem diagnostic_witness:
  "test_database (Imported (Some (Database NoName (Inl (Exception (replicate 60 120))))))
     env_none =
   Response 200
     \<lparr>backend = check_mark @ u '' Running'',
      database = warning_sign @ u ''  Connected but Error: '' @ replicate 50 120,
      database_url = Some (cross_mark @ u '' Not Set''),
      database_name = Some (cross_mark @ u '' Not Set''),
      connection_status = u ''Connected'',
      collections = []\<rparr>"
  using diagnostic_never_fails
          [of "Imported (Some (Database NoName (Inl (Exception (replicate 60 120)))))" env_none]
  by (simp add: test_database_def probe_database_def initial_status_def set_or_not_def
      env_set_def env_none_def)

text \<open>
  C7. In every answer of the diagnostic endpoint the field \<open>collections\<close> holds at
  most 10 names: the first 10 the store lists when the handle is present and the
  listing succeeds, and the empty sequence in every other case (the import raises, the
  handle is absent, looking at the handle or listing raises).
\<close>

theorem collections_first_ten:
  "\<exists>r. test_database imp env = Response 200 r \<and>
       length (collections r) \<le> 10 \<and>
       collections r =
         (case imp of
            Imported (Some (Database (NameRaises e) l)) \<Rightarrow> []
          | Imported (Some (Database n (Inr names))) \<Rightarrow> take 10 names
          | _ \<Rightarrow> [])"
proof -
  let ?r = "(probe_database imp initial_status)
              \<lparr>database_url := Some (set_or_not (DATABASE_URL env)),
               database_name := Some (set_or_not (DATABASE_NAME env))\<rparr>"
  have names: "collections ?r =
         (case imp of
            Imported (Some (Database (NameRaises e) l)) \<Rightarrow> []
          | Imported (Some (Database n (Inr names))) \<Rightarrow> take 10 names
          | _ \<Rightarrow> [])"
    by (simp add: probe_database_collections)
  have "length (collections ?r) \<le> 10"
    unfolding names
    by (simp split: import_result.splits option.splits db_handle.splits name_probe.splits
        sum.splits)
  with names show ?thesis
    by (simp add: test_database_payload)
qed

theorem collections_witness:
  "length twelve_names = 12 \<and>
   test_database (Imported (Some (Database (Name (u ''vault'')) (Inr twelve_names))))
     env_none =
   Response 200
     \<lparr>backend = check_mark @ u '' Running'',
      database = check_mark @ u '' Connected & Working'',
      database_url = Some (cross_mark @ u '' Not Set''),
      database_name = Some (cross_mark @ u '' Not Set''),
      connection_status = u ''Connected'',
      collections = take 10 twelve_names\<rparr> \<and>
   test_database (Imported None) env_none =
   Response 200
     \<lparr>backend = check_mark @ u '' Running'',
      database = warning_sign @ u ''  Available but not initialized'',
      database_url = Some (cross_mark @ u '' Not Set''),
      database_name = Some (cross_mark @ u '' Not Set''),
      connection_status = u ''Not Connected'',
      collections = []\<rparr>"
  using collections_first_ten
          [of "Imported (Some (Database (Name (u ''vault'')) (Inr twelve_names)))" env_none]
        collections_first_ten [of "Imported None" env_none]
  by (simp add: test_database_def probe_database_def initial_status_def set_or_not_def
      env_set_def env_none_def twelve_names_def)

end
